theory Spec2Isabelle
  imports Main
begin

section \<open>Values of the program\<close>

text \<open>
  The program works on the values that \<open>json.loads\<close> and the regular-expression scans
  produce: \<open>None\<close>, booleans, integers, strings, lists and dictionaries with string keys.
  A dictionary is an association list in insertion order (the order Python iterates it in);
  a dictionary received from outside has pairwise distinct keys.  Integers are unbounded.
  A string is a list of characters, each character a code point below 256; the character
  classes below are Python's classes on these code points.  JSON floating point numbers
  are not part of the model, and neither is the interpreter's configurable limit on the
  number of digits \<open>int()\<close> converts.
\<close>

datatype pyval =
    PNone
  | PBool bool
  | PInt int
  | PStr string
  | PList "pyval list"
  | PDict "(string \<times> pyval) list"

type_synonym pydict = "(string \<times> pyval) list"

datatype error = TypeError | ValueError

subsection \<open>Dictionary operations\<close>

text \<open>\<open>d.get(k)\<close>, \<open>k in d\<close> and \<open>d[k] = v\<close>: an assignment to a present key keeps
  the key's position, an assignment to a new key appends it.\<close>

definition dict_get :: "pydict \<Rightarrow> string \<Rightarrow> pyval option" where
  "dict_get d k = map_of d k"

definition dict_has :: "pydict \<Rightarrow> string \<Rightarrow> bool" where
  "dict_has d k = (dict_get d k \<noteq> None)"

fun dict_set :: "pydict \<Rightarrow> string \<Rightarrow> pyval \<Rightarrow> pydict" where
  "dict_set [] k v = [(k, v)]"
| "dict_set ((k', v') # d) k v = (if k' = k then (k, v) # d else (k', v') # dict_set d k v)"

text \<open>\<open>d.get(k)\<close> as a value: \<open>None\<close> when the key is absent.\<close>

definition get_or_none :: "pydict \<Rightarrow> string \<Rightarrow> pyval" where
  "get_or_none d k = (case dict_get d k of None \<Rightarrow> PNone | Some v \<Rightarrow> v)"

subsection \<open>Truth value and equality of values\<close>

fun truthy :: "pyval \<Rightarrow> bool" where
  "truthy PNone = False"
| "truthy (PBool b) = b"
| "truthy (PInt n) = (n \<noteq> 0)"
| "truthy (PStr s) = (s \<noteq> [])"
| "truthy (PList xs) = (xs \<noteq> [])"
| "truthy (PDict d) = (d \<noteq> [])"

text \<open>Python's \<open>==\<close>: a boolean equals the integer 0 or 1 it stands for, lists are
  compared element by element, dictionaries key by key whatever their order.\<close>

fun py_eq :: "pyval \<Rightarrow> pyval \<Rightarrow> bool" where
  "py_eq PNone y = (y = PNone)"
| "py_eq (PBool a) y =
     (case y of PBool b \<Rightarrow> a = b | PInt n \<Rightarrow> (if a then 1 else 0) = n | _ \<Rightarrow> False)"
| "py_eq (PInt m) y =
     (case y of PBool b \<Rightarrow> m = (if b then 1 else 0) | PInt n \<Rightarrow> m = n | _ \<Rightarrow> False)"
| "py_eq (PStr s) y = (y = PStr s)"
| "py_eq (PList xs) y =
     (case y of PList ys \<Rightarrow> list_all2 py_eq xs ys | _ \<Rightarrow> False)"
| "py_eq (PDict d) y =
     (case y of
        PDict e \<Rightarrow> length d = length e \<and>
          list_all (\<lambda>(k, v). case map_of e k of None \<Rightarrow> False | Some w \<Rightarrow> py_eq v w) d
      | _ \<Rightarrow> False)"

section \<open>String operations of the standard library\<close>

definition startswith :: "string \<Rightarrow> string \<Rightarrow> bool" where
  "startswith s p = (take (length p) s = p)"

definition endswith :: "string \<Rightarrow> string \<Rightarrow> bool" where
  "endswith s p = (length p \<le> length s \<and> drop (length s - length p) s = p)"

text \<open>\<open>p in s\<close> for strings: \<open>p\<close> occurs in \<open>s\<close> as a contiguous substring.\<close>

fun contains :: "string \<Rightarrow> string \<Rightarrow> bool" where
  "contains [] p = (p = [])"
| "contains (c # cs) p = (startswith (c # cs) p \<or> contains cs p)"

text \<open>\<open>s.replace('px', '')\<close>: every occurrence of \<open>px\<close>, found from the left and
  without overlap, is removed.\<close>

fun replace_px :: "string \<Rightarrow> string" where
  "replace_px (c # d # cs) =
     (if c = CHR ''p'' \<and> d = CHR ''x'' then replace_px cs else c # replace_px (d # cs))"
| "replace_px cs = cs"

text \<open>Character classes.  \<open>is_space\<close> is \<open>str.isspace\<close>, the class \<open>\s\<close> of the
  \<open>re\<close> module and what \<open>str.strip()\<close> removes; \<open>is_word\<close> is the class \<open>\w\<close>;
  \<open>is_digit\<close> is \<open>str.isdigit\<close> on one character, which holds for the superscripts
  one, two and three too; \<open>is_decimal\<close> is a digit that \<open>int()\<close> reads;
  \<open>int_space\<close> is the white space that \<open>int()\<close> skips.\<close>

definition code_point :: "char \<Rightarrow> nat" where
  "code_point c = of_char c"

definition is_space :: "char \<Rightarrow> bool" where
  "is_space c = (let n = code_point c in
     (9 \<le> n \<and> n \<le> 13) \<or> (28 \<le> n \<and> n \<le> 32) \<or> n = 133 \<or> n = 160)"

definition int_space :: "char \<Rightarrow> bool" where
  "int_space c = (let n = code_point c in
     (9 \<le> n \<and> n \<le> 13) \<or> n = 32 \<or> n = 133 \<or> n = 160)"

definition is_decimal :: "char \<Rightarrow> bool" where
  "is_decimal c = (let n = code_point c in 48 \<le> n \<and> n \<le> 57)"

definition is_digit :: "char \<Rightarrow> bool" where
  "is_digit c = (let n = code_point c in
     (48 \<le> n \<and> n \<le> 57) \<or> n = 178 \<or> n = 179 \<or> n = 185)"

definition is_word :: "char \<Rightarrow> bool" where
  "is_word c = (let n = code_point c in
     (48 \<le> n \<and> n \<le> 57) \<or> (65 \<le> n \<and> n \<le> 90) \<or> n = 95 \<or> (97 \<le> n \<and> n \<le> 122) \<or>
     n = 170 \<or> n = 178 \<or> n = 179 \<or> n = 181 \<or> n = 185 \<or> n = 186 \<or>
     (188 \<le> n \<and> n \<le> 190) \<or> (192 \<le> n \<and> n \<le> 214) \<or> (216 \<le> n \<and> n \<le> 246) \<or>
     248 \<le> n)"

definition isdigit :: "string \<Rightarrow> bool" where
  "isdigit s = (s \<noteq> [] \<and> list_all is_digit s)"

text \<open>\<open>s.strip()\<close> and \<open>s.strip(chars)\<close>: the characters of the class are removed
  from both ends.\<close>

definition strip_chars :: "(char \<Rightarrow> bool) \<Rightarrow> string \<Rightarrow> string" where
  "strip_chars p s = rev (dropWhile p (rev (dropWhile p s)))"

definition is_quote :: "char \<Rightarrow> bool" where
  "is_quote c = (c = CHR 0x22 \<or> c = CHR 0x27)"

subsection \<open>Conversion of a string to an integer\<close>

text \<open>\<open>int(s)\<close> in base ten: white space around the number is skipped, one sign is
  allowed, and the digits may be separated by single underscores.  Anything else is a
  \<open>ValueError\<close>, here \<open>None\<close>.\<close>

definition digit_val :: "char \<Rightarrow> int" where
  "digit_val c = int (code_point c) - 48"

fun digits_val :: "int \<Rightarrow> string \<Rightarrow> int" where
  "digits_val acc [] = acc"
| "digits_val acc (c # cs) =
     (if c = CHR ''_'' then digits_val acc cs else digits_val (10 * acc + digit_val c) cs)"

text \<open>The digit part is well formed when it starts and ends with a digit and has no two
  underscores in a row.\<close>

fun digits_ok :: "string \<Rightarrow> bool" where
  "digits_ok [] = False"
| "digits_ok [c] = is_decimal c"
| "digits_ok (c # d # cs) =
     (is_decimal c \<and> (if d = CHR ''_'' then digits_ok cs else digits_ok (d # cs)))"

definition py_int :: "string \<Rightarrow> int option" where
  "py_int s =
     (let s1 = dropWhile int_space s;
          neg = (case s1 of [] \<Rightarrow> False | c # _ \<Rightarrow> c = CHR ''-'');
          s2 = (case s1 of [] \<Rightarrow> []
                | c # r \<Rightarrow> if c = CHR ''+'' \<or> c = CHR ''-'' then r else s1);
          ds = takeWhile (\<lambda>c. is_decimal c \<or> c = CHR ''_'') s2;
          r = dropWhile (\<lambda>c. is_decimal c \<or> c = CHR ''_'') s2
      in if digits_ok ds \<and> list_all int_space r
         then Some (if neg then - digits_val 0 ds else digits_val 0 ds)
         else None)"

section \<open>The value parser\<close>

text \<open>
  \<open>re.search(r'var\(--(?:color-)?([^)]+)\)', value)\<close>.  At one start position the
  pattern reads \<open>var(--\<close>, then \<open>color-\<close> if it is there, then as many characters other
  than the closing parenthesis as there are, at least one, and the closing parenthesis.
  When the attempt that reads \<open>color-\<close> fails, the matcher retries without it.  The
  search returns the group of the leftmost start position that matches.
\<close>

definition css_var_name :: "string \<Rightarrow> string option" where
  "css_var_name s =
     (let n = takeWhile (\<lambda>c. c \<noteq> CHR '')'') s;
          r = dropWhile (\<lambda>c. c \<noteq> CHR '')'') s
      in if n \<noteq> [] \<and> r \<noteq> [] then Some n else None)"

definition match_css_var :: "string \<Rightarrow> string option" where
  "match_css_var s =
     (if startswith s ''var(--'' then
        (let r = drop 6 s in
         case (if startswith r ''color-'' then css_var_name (drop 6 r) else None) of
           Some n \<Rightarrow> Some n
         | None \<Rightarrow> css_var_name r)
      else None)"

fun search_css_var :: "string \<Rightarrow> string option" where
  "search_css_var [] = None"
| "search_css_var (c # cs) =
     (case match_css_var (c # cs) of Some n \<Rightarrow> Some n | None \<Rightarrow> search_css_var cs)"

text \<open>
  \<open>parse_property_value\<close> on a string.  The function is the same in both source files.
  The \<open>ValueError\<close> of the pixel branch is caught there; the one of the digit branch
  is not.
\<close>

definition parse_str :: "string \<Rightarrow> error + pyval" where
  "parse_str s =
     (case search_css_var s of
        Some t \<Rightarrow> Inr (PDict [(''token'', PStr t), (''value'', PStr t)])
      | None \<Rightarrow>
          if endswith s ''px'' then
            (if CHR '' '' \<in> set s then Inr (PDict [(''value'', PStr s)])
             else (case py_int (replace_px s) of
                     Some n \<Rightarrow> Inr (PDict [(''value'', PStr s), (''normalized'', PInt n)])
                   | None \<Rightarrow> Inr (PDict [(''value'', PStr s)])))
          else if endswith s ''%'' then
            Inr (PDict [(''value'', PStr s), (''type'', PStr ''percentage'')])
          else if isdigit s then
            (case py_int s of
               Some n \<Rightarrow> Inr (PDict [(''value'', PStr s), (''normalized'', PInt n)])
             | None \<Rightarrow> Inl ValueError)
          else if CHR ''-'' \<in> set s \<and> \<not> startswith s ''var('' then
            Inr (PDict [(''token'', PStr s), (''value'', PStr s)])
          else Inr (PDict [(''value'', PStr s)]))"

text \<open>The function on any value: \<open>re.search\<close> is its first statement and raises
  \<open>TypeError\<close> for an argument that is not a string.\<close>

fun parse_property_value :: "pyval \<Rightarrow> error + pyval" where
  "parse_property_value (PStr s) = parse_str s"
| "parse_property_value v = Inl TypeError"

section \<open>Text of a value\<close>

text \<open>\<open>str(n)\<close> for an integer, and \<open>repr\<close> and \<open>str\<close> of a value, which the
  recommendation texts are formatted with.\<close>

fun str_nat :: "nat \<Rightarrow> string" where
  "str_nat n = (if n < 10 then [char_of (48 + n)] else str_nat (n div 10) @ [char_of (48 + n mod 10)])"

declare str_nat.simps [simp del]

definition str_int :: "int \<Rightarrow> string" where
  "str_int i = (if i < 0 then CHR ''-'' # str_nat (nat (- i)) else str_nat (nat i))"

definition printable :: "char \<Rightarrow> bool" where
  "printable c = (let n = code_point c in (32 \<le> n \<and> n \<le> 126) \<or> (161 \<le> n \<and> n \<noteq> 173))"

definition hex_digit :: "nat \<Rightarrow> char" where
  "hex_digit n = (if n < 10 then char_of (48 + n) else char_of (87 + n))"

definition repr_char :: "char \<Rightarrow> char \<Rightarrow> string" where
  "repr_char q c =
     (if c = q \<or> c = CHR 0x5C then [CHR 0x5C, c]
      else if c = CHR 0x09 then [CHR 0x5C, CHR ''t'']
      else if c = CHR 0x0A then [CHR 0x5C, CHR ''n'']
      else if c = CHR 0x0D then [CHR 0x5C, CHR ''r'']
      else if printable c then [c]
      else [CHR 0x5C, CHR ''x'', hex_digit (code_point c div 16), hex_digit (code_point c mod 16)])"

definition repr_str :: "string \<Rightarrow> string" where
  "repr_str s =
     (let q = (if CHR 0x27 \<in> set s \<and> CHR 0x22 \<notin> set s then CHR 0x22 else CHR 0x27)
      in q # concat (map (repr_char q) s) @ [q])"

fun join_comma :: "string list \<Rightarrow> string" where
  "join_comma [] = []"
| "join_comma [s] = s"
| "join_comma (s # t # ss) = s @ '', '' @ join_comma (t # ss)"

fun py_repr :: "pyval \<Rightarrow> string" where
  "py_repr PNone = ''None''"
| "py_repr (PBool b) = (if b then ''True'' else ''False'')"
| "py_repr (PInt n) = str_int n"
| "py_repr (PStr s) = repr_str s"
| "py_repr (PList xs) = ''['' @ join_comma (map py_repr xs) @ '']''"
| "py_repr (PDict d) =
     ''{'' @ join_comma (map (\<lambda>(k, v). repr_str k @ '': '' @ py_repr v) d) @ ''}''"

definition py_str :: "pyval \<Rightarrow> string" where
  "py_str v = (case v of PStr s \<Rightarrow> s | _ \<Rightarrow> py_repr v)"

section \<open>The property extractor\<close>

text \<open>
  \<open>re.findall(r'(\w+)="([^"]+)"', jsx_content)\<close>.  At one start position the pattern
  reads the longest run of word characters, at least one, then an equals sign and a double
  quote, then the longest run of characters other than a double quote, at least one, and
  a double quote.  A shorter run can never be followed by what the pattern asks for next,
  so retrying does not help.  The scan collects the two groups of every match from the
  left and goes on behind each match.
\<close>

definition match_prop :: "string \<Rightarrow> ((string \<times> string) \<times> string) option" where
  "match_prop s =
     (let k = takeWhile is_word s; r = dropWhile is_word s in
      if k \<noteq> [] \<and> startswith r [CHR ''='', CHR 0x22] then
        (let v = takeWhile (\<lambda>c. c \<noteq> CHR 0x22) (drop 2 r);
             t = dropWhile (\<lambda>c. c \<noteq> CHR 0x22) (drop 2 r)
         in if v \<noteq> [] \<and> t \<noteq> [] then Some ((k, v), tl t) else None)
      else None)"

lemma match_prop_shorter: "match_prop s = Some (kv, t) \<Longrightarrow> length t < length s"
proof -
  assume a: "match_prop s = Some (kv, t)"
  let ?r = "dropWhile is_word s"
  let ?u = "dropWhile (\<lambda>c. c \<noteq> CHR 0x22) (drop 2 ?r)"
  from a have t: "t = tl ?u" and u: "?u \<noteq> []"
    by (auto simp: match_prop_def Let_def split: if_splits)
  have "length ?u \<le> length (drop 2 ?r)" by (rule length_dropWhile_le)
  moreover have "length ?r \<le> length s" by (rule length_dropWhile_le)
  moreover from u have "length (tl ?u) < length ?u" by (cases ?u) auto
  ultimately show ?thesis using t by simp
qed

function findall_props :: "string \<Rightarrow> (string \<times> string) list" where
  "findall_props [] = []"
| "findall_props (c # cs) =
     (case match_prop (c # cs) of
        Some (kv, t) \<Rightarrow> kv # findall_props t
      | None \<Rightarrow> findall_props cs)"
  by pat_completeness auto
termination
  by (relation "measure length") (auto dest: match_prop_shorter)

text \<open>
  \<open>re.search(r'style=\{\{([^}]+)\}\}', jsx_content)\<close>: the first place where
  \<open>style={{\<close> is followed by at least one character other than a closing brace and then
  by two closing braces; the group is what stands between.
\<close>

definition match_style :: "string \<Rightarrow> string option" where
  "match_style s =
     (if startswith s ''style={{'' then
        (let b = takeWhile (\<lambda>c. c \<noteq> CHR ''}'') (drop 8 s);
             t = dropWhile (\<lambda>c. c \<noteq> CHR ''}'') (drop 8 s)
         in if b \<noteq> [] \<and> startswith t ''}}'' then Some b else None)
      else None)"

fun search_style :: "string \<Rightarrow> string option" where
  "search_style [] = None"
| "search_style (c # cs) =
     (case match_style (c # cs) of Some b \<Rightarrow> Some b | None \<Rightarrow> search_style cs)"

text \<open>
  \<open>re.findall(r'(\w+):\s*([^,}]+)', style_content)\<close>.  After the word and the colon the
  pattern skips all white space and reads the longest run of characters other than a comma
  and a closing brace.  When that run is empty and white space was skipped, the matcher gives
  the last white space character back, and it alone is the value.
\<close>

definition is_css_value_char :: "char \<Rightarrow> bool" where
  "is_css_value_char c = (c \<noteq> CHR '','' \<and> c \<noteq> CHR ''}'')"

definition match_css_prop :: "string \<Rightarrow> ((string \<times> string) \<times> string) option" where
  "match_css_prop s =
     (let k = takeWhile is_word s; r = dropWhile is_word s in
      if k \<noteq> [] \<and> startswith r '':'' then
        (let w = takeWhile is_space (tl r);
             u = dropWhile is_space (tl r);
             v = takeWhile is_css_value_char u;
             t = dropWhile is_css_value_char u
         in if v \<noteq> [] then Some ((k, v), t)
            else if w \<noteq> [] then Some ((k, [last w]), u)
            else None)
      else None)"

lemma match_css_prop_shorter: "match_css_prop s = Some (kv, t) \<Longrightarrow> length t < length s"
proof -
  assume a: "match_css_prop s = Some (kv, t)"
  let ?r = "dropWhile is_word s"
  let ?u = "dropWhile is_space (tl ?r)"
  from a have "startswith ?r '':''"
    by (simp add: match_css_prop_def Let_def split: if_splits)
  then have r: "?r \<noteq> []"
    by (cases ?r) (simp_all add: startswith_def)
  from a have "t = dropWhile is_css_value_char ?u \<or> t = ?u"
    by (auto simp: match_css_prop_def Let_def split: if_splits)
  moreover have "length (dropWhile is_css_value_char ?u) \<le> length ?u"
    by (rule length_dropWhile_le)
  moreover have "length ?u \<le> length (tl ?r)" by (rule length_dropWhile_le)
  moreover from r have "length (tl ?r) < length ?r" by (cases ?r) auto
  moreover have "length ?r \<le> length s" by (rule length_dropWhile_le)
  ultimately show ?thesis by auto
qed

function findall_css :: "string \<Rightarrow> (string \<times> string) list" where
  "findall_css [] = []"
| "findall_css (c # cs) =
     (case match_css_prop (c # cs) of
        Some (kv, t) \<Rightarrow> kv # findall_css t
      | None \<Rightarrow> findall_css cs)"
  by pat_completeness auto
termination
  by (relation "measure length") (auto dest: match_css_prop_shorter)

text \<open>The name table of \<open>map_css_property_name\<close>; a name that is not listed is kept.\<close>

definition css_mapping :: "(string \<times> string) list" where
  "css_mapping =
     [(''color'', ''textColor''),
      (''background'', ''backgroundColor''),
      (''backgroundColor'', ''backgroundColor''),
      (''fontSize'', ''fontSize''),
      (''fontWeight'', ''fontWeight''),
      (''fontFamily'', ''fontFamily''),
      (''borderRadius'', ''borderRadius''),
      (''padding'', ''padding''),
      (''lineHeight'', ''lineHeight'')]"

definition map_css_property_name :: "string \<Rightarrow> string" where
  "map_css_property_name css_prop =
     (case map_of css_mapping css_prop of Some n \<Rightarrow> n | None \<Rightarrow> css_prop)"

text \<open>\<open>css_value.strip().strip('"\'')\<close>.\<close>

definition clean_value :: "string \<Rightarrow> string" where
  "clean_value css_value = strip_chars is_quote (strip_chars is_space css_value)"

text \<open>The two loops of \<open>parse_jsx_props\<close>: over the attribute matches, where the key
  \<open>style\<close> is skipped, and over the entries of the style block.\<close>

fun set_attrs :: "pydict \<Rightarrow> (string \<times> string) list \<Rightarrow> error + pydict" where
  "set_attrs props [] = Inr props"
| "set_attrs props ((key, v) # ms) =
     (if key = ''style'' then set_attrs props ms
      else (case parse_property_value (PStr v) of
              Inl e \<Rightarrow> Inl e
            | Inr d \<Rightarrow> set_attrs (dict_set props key d) ms))"

fun set_styles :: "pydict \<Rightarrow> (string \<times> string) list \<Rightarrow> error + pydict" where
  "set_styles props [] = Inr props"
| "set_styles props ((css_key, css_value) # ms) =
     (case parse_property_value (PStr (clean_value css_value)) of
        Inl e \<Rightarrow> Inl e
      | Inr d \<Rightarrow> set_styles (dict_set props (map_css_property_name css_key) d) ms)"

definition parse_jsx_props :: "string \<Rightarrow> error + pydict" where
  "parse_jsx_props jsx_content =
     (case set_attrs [] (findall_props jsx_content) of
        Inl e \<Rightarrow> Inl e
      | Inr props \<Rightarrow>
          (case search_style jsx_content of
             None \<Rightarrow> Inr props
           | Some style_content \<Rightarrow> set_styles props (findall_css style_content)))"

section \<open>The token resolver\<close>

text \<open>
  \<open>v in tokens\<close> followed by \<open>tokens[v]\<close>.  The keys of the token dictionary are
  strings, so only a string can be found; a list or a dictionary cannot be hashed and the
  membership test raises \<open>TypeError\<close>.
\<close>

definition token_lookup :: "pyval \<Rightarrow> pydict \<Rightarrow> error + pyval option" where
  "token_lookup v tokens =
     (case v of
        PStr s \<Rightarrow> Inr (dict_get tokens s)
      | PList _ \<Rightarrow> Inl TypeError
      | PDict _ \<Rightarrow> Inl TypeError
      | _ \<Rightarrow> Inr None)"

text \<open>\<open>s.endswith('px') and ' ' not in s\<close>\<close>

definition single_px :: "string \<Rightarrow> bool" where
  "single_px s = (endswith s ''px'' \<and> CHR '' '' \<notin> set s)"

text \<open>The branch for a value that is not a dictionary; it is the same in both files.
  \<open>int()\<close> is called outside any \<open>try\<close>.\<close>

definition resolve_raw :: "pyval \<Rightarrow> pydict \<Rightarrow> error + pyval" where
  "resolve_raw prop tokens =
     (case prop of
        PStr s \<Rightarrow>
          (case dict_get tokens s of
             Some r \<Rightarrow> Inr (PDict [(''token'', PStr s), (''value'', PStr s), (''resolved'', r)])
           | None \<Rightarrow>
               if single_px s then
                 (case py_int (replace_px s) of
                    Some n \<Rightarrow> Inr (PDict [(''value'', PStr s), (''normalized'', PInt n)])
                  | None \<Rightarrow> Inl ValueError)
               else Inr (PDict [(''value'', PStr s)]))
      | _ \<Rightarrow> Inr (PDict [(''value'', prop)]))"

text \<open>The branch for a dictionary, up to the \<open>if\<close>/\<open>elif\<close> on the token and the
  value; the copy \<open>dict(prop)\<close> is the descriptor itself.\<close>

definition resolve_descriptor :: "pydict \<Rightarrow> pydict \<Rightarrow> error + pydict" where
  "resolve_descriptor prop tokens =
     (case (if dict_has prop ''token'' then token_lookup (get_or_none prop ''token'') tokens
            else Inr None) of
        Inl e \<Rightarrow> Inl e
      | Inr (Some r) \<Rightarrow> Inr (dict_set prop ''resolved'' r)
      | Inr None \<Rightarrow>
          (case (if dict_has prop ''value'' then token_lookup (get_or_none prop ''value'') tokens
                 else Inr None) of
             Inl e \<Rightarrow> Inl e
           | Inr (Some r) \<Rightarrow>
               Inr (dict_set (dict_set prop ''resolved'' r) ''token'' (get_or_none prop ''value''))
           | Inr None \<Rightarrow> Inr prop))"

text \<open>The last statement of the dictionary branch in \<open>index.py\<close>, which \<open>app.py\<close>
  does not have: \<open>normalized\<close> is set again from a single pixel value.\<close>

definition normalize_px :: "pydict \<Rightarrow> pydict \<Rightarrow> error + pydict" where
  "normalize_px prop res =
     (case dict_get prop ''value'' of
        Some (PStr s) \<Rightarrow>
          if single_px s then
            (case py_int (replace_px s) of
               Some n \<Rightarrow> Inr (dict_set res ''normalized'' (PInt n))
             | None \<Rightarrow> Inl ValueError)
          else Inr res
      | _ \<Rightarrow> Inr res)"

text \<open>The body of the loop of \<open>resolve_tokens\<close> in \<open>app.py\<close> and in \<open>index.py\<close>.\<close>

definition resolve_prop_app :: "pyval \<Rightarrow> pydict \<Rightarrow> error + pyval" where
  "resolve_prop_app prop tokens =
     (case prop of
        PDict d \<Rightarrow>
          (case resolve_descriptor d tokens of Inl e \<Rightarrow> Inl e | Inr res \<Rightarrow> Inr (PDict res))
      | _ \<Rightarrow> resolve_raw prop tokens)"

definition resolve_prop_index :: "pyval \<Rightarrow> pydict \<Rightarrow> error + pyval" where
  "resolve_prop_index prop tokens =
     (case prop of
        PDict d \<Rightarrow>
          (case resolve_descriptor d tokens of
             Inl e \<Rightarrow> Inl e
           | Inr res \<Rightarrow>
               (case normalize_px d res of Inl e \<Rightarrow> Inl e | Inr res' \<Rightarrow> Inr (PDict res')))
      | _ \<Rightarrow> resolve_raw prop tokens)"

text \<open>The loop over \<open>props.items()\<close>; the first exception ends it.\<close>

fun resolve_loop ::
  "(pyval \<Rightarrow> pydict \<Rightarrow> error + pyval) \<Rightarrow> pydict \<Rightarrow> pydict \<Rightarrow> pydict \<Rightarrow> error + pydict" where
  "resolve_loop body resolved [] tokens = Inr resolved"
| "resolve_loop body resolved ((key, prop) # items) tokens =
     (case body prop tokens of
        Inl e \<Rightarrow> Inl e
      | Inr d \<Rightarrow> resolve_loop body (dict_set resolved key d) items tokens)"

definition resolve_tokens_app :: "pydict \<Rightarrow> pydict \<Rightarrow> error + pydict" where
  "resolve_tokens_app props tokens = resolve_loop resolve_prop_app [] props tokens"

definition resolve_tokens_index :: "pydict \<Rightarrow> pydict \<Rightarrow> error + pydict" where
  "resolve_tokens_index props tokens = resolve_loop resolve_prop_index [] props tokens"

section \<open>The comparator\<close>

record issue =
  severity :: string
  property :: string
  figma :: pyval
  pr :: pyval
  recommendation :: string
  category :: string

text \<open>\<open>abs(a - b)\<close>: defined on integers and booleans, a \<open>TypeError\<close> on the other
  values that can stand here.\<close>

fun num_of :: "pyval \<Rightarrow> int option" where
  "num_of (PInt n) = Some n"
| "num_of (PBool b) = Some (if b then 1 else 0)"
| "num_of v = None"

definition abs_diff :: "pyval \<Rightarrow> pyval \<Rightarrow> error + int" where
  "abs_diff a b =
     (case (num_of a, num_of b) of
        (Some m, Some n) \<Rightarrow> Inr \<bar>m - n\<bar>
      | _ \<Rightarrow> Inl TypeError)"

definition alt_issue :: issue where
  "alt_issue =
     \<lparr>severity = ''MAJOR'', property = ''alt'',
      figma = PDict [(''required'', PBool True)],
      pr = PDict [(''missing'', PBool True)],
      recommendation = ''Add alt attribute for accessibility compliance'',
      category = ''ACCESSIBILITY_VIOLATION''\<rparr>"

definition missing_issue :: "string \<Rightarrow> pyval \<Rightarrow> issue" where
  "missing_issue key figma_val =
     \<lparr>severity = ''MINOR'', property = key,
      figma = PDict [(''value'', figma_val)],
      pr = PDict [(''missing'', PBool True)],
      recommendation = ''Add missing property: '' @ key,
      category = ''MISSING_PROPERTY''\<rparr>"

definition token_issue :: "string \<Rightarrow> pydict \<Rightarrow> pydict \<Rightarrow> issue" where
  "token_issue key figma_val pr_val =
     \<lparr>severity = ''MAJOR'', property = key,
      figma = PDict [(''token'', get_or_none figma_val ''token''),
                     (''value'', get_or_none figma_val ''resolved'')],
      pr = PDict [(''token'', get_or_none pr_val ''token''),
                  (''value'', get_or_none pr_val ''resolved'')],
      recommendation =
        ''Update PR to use '' @ [CHR 0x27] @ py_str (get_or_none figma_val ''token'') @ [CHR 0x27] @
        '' token instead of '' @ [CHR 0x27] @ py_str (get_or_none pr_val ''token'') @ [CHR 0x27],
      category = ''TOKEN_MISMATCH''\<rparr>"

definition value_issue :: "string \<Rightarrow> int \<Rightarrow> pydict \<Rightarrow> pydict \<Rightarrow> issue" where
  "value_issue key diff figma_val pr_val =
     \<lparr>severity = (if diff > 2 then ''MAJOR'' else ''MINOR''), property = key,
      figma = PDict [(''value'', get_or_none figma_val ''value'')],
      pr = PDict [(''value'', get_or_none pr_val ''value'')],
      recommendation =
        ''Consider using '' @ py_str (get_or_none figma_val ''value'') @
        '' to match design spec (current: '' @ py_str (get_or_none pr_val ''value'') @ '')'',
      category = ''VALUE_DIFFERENCE''\<rparr>"

definition radius_issue :: "string \<Rightarrow> pyval \<Rightarrow> pyval \<Rightarrow> issue" where
  "radius_issue key figma_value pr_value =
     \<lparr>severity = ''MINOR'', property = key,
      figma = PDict [(''value'', figma_value)],
      pr = PDict [(''value'', pr_value)],
      recommendation = ''Different border-radius approach but same visual effect'',
      category = ''IMPLEMENTATION_DIFFERENCE''\<rparr>"

text \<open>The body of the loop of \<open>compare_components\<close>, the same in both files: the issues
  that one reference entry appends.\<close>

definition compare_missing :: "string \<Rightarrow> pyval \<Rightarrow> issue list" where
  "compare_missing key figma_val =
     (if key = ''imageAltRequired'' \<and> figma_val = PBool True then [alt_issue]
      else if contains key ''hover'' \<or> contains key ''focus'' then []
      else [missing_issue key figma_val])"

definition compare_present :: "string \<Rightarrow> pydict \<Rightarrow> pydict \<Rightarrow> error + issue list" where
  "compare_present key figma_val pr_val =
     (if truthy (get_or_none figma_val ''token'') \<and> truthy (get_or_none pr_val ''token'') then
        (if \<not> py_eq (get_or_none figma_val ''token'') (get_or_none pr_val ''token'')
         then Inr [token_issue key figma_val pr_val] else Inr [])
      else if get_or_none figma_val ''normalized'' \<noteq> PNone \<and>
              get_or_none pr_val ''normalized'' \<noteq> PNone then
        (case abs_diff (get_or_none figma_val ''normalized'') (get_or_none pr_val ''normalized'') of
           Inl e \<Rightarrow> Inl e
         | Inr diff \<Rightarrow>
             if diff > 0 then Inr [value_issue key diff figma_val pr_val] else Inr [])
      else if key = ''borderRadius'' then
        (if py_eq (get_or_none figma_val ''value'') (PStr ''9999px'') \<and>
            py_eq (get_or_none pr_val ''value'') (PStr ''50%'')
         then Inr [radius_issue key (get_or_none figma_val ''value'') (get_or_none pr_val ''value'')]
         else Inr [])
      else Inr [])"

definition compare_entry :: "string \<Rightarrow> pyval \<Rightarrow> pydict \<Rightarrow> error + issue list" where
  "compare_entry key figma_val pr_props =
     (let pr_val = get_or_none pr_props key in
      if \<not> truthy pr_val then Inr (compare_missing key figma_val)
      else (case (figma_val, pr_val) of
              (PDict f, PDict p) \<Rightarrow> compare_present key f p
            | _ \<Rightarrow> Inr []))"

fun compare_loop :: "issue list \<Rightarrow> pydict \<Rightarrow> pydict \<Rightarrow> error + issue list" where
  "compare_loop issues [] pr_props = Inr issues"
| "compare_loop issues ((key, figma_val) # items) pr_props =
     (case compare_entry key figma_val pr_props of
        Inl e \<Rightarrow> Inl e
      | Inr new \<Rightarrow> compare_loop (issues @ new) items pr_props)"

definition compare_components :: "pydict \<Rightarrow> pydict \<Rightarrow> string \<Rightarrow> error + issue list" where
  "compare_components figma_props pr_props component_name = compare_loop [] figma_props pr_props"

section \<open>The two drivers\<close>

text \<open>
  The core steps of \<open>analyze\<close> in \<open>app.py\<close> and of one round of the loop of
  \<open>process_design_review\<close> in \<open>index.py\<close>, from the parsed inputs to the issue list:
  extraction of the implementation's properties, token resolution of both sides,
  comparison.  Reading the request and the files and writing the result are left out.
\<close>

definition analyze :: "pydict \<Rightarrow> pydict \<Rightarrow> string \<Rightarrow> string \<Rightarrow> error + issue list" where
  "analyze figma_props tokens jsx_content component_name =
     (case parse_jsx_props jsx_content of
        Inl e \<Rightarrow> Inl e
      | Inr pr_props \<Rightarrow>
          (case resolve_tokens_app figma_props tokens of
             Inl e \<Rightarrow> Inl e
           | Inr figma_resolved \<Rightarrow>
               (case resolve_tokens_app pr_props tokens of
                  Inl e \<Rightarrow> Inl e
                | Inr pr_resolved \<Rightarrow>
                    compare_components figma_resolved pr_resolved component_name)))"

definition process_component :: "pydict \<Rightarrow> pydict \<Rightarrow> string \<Rightarrow> string \<Rightarrow> error + issue list" where
  "process_component figma_props tokens pr_content component =
     (case parse_jsx_props pr_content of
        Inl e \<Rightarrow> Inl e
      | Inr pr_props \<Rightarrow>
          (case resolve_tokens_index figma_props tokens of
             Inl e \<Rightarrow> Inl e
           | Inr figma_resolved \<Rightarrow>
               (case resolve_tokens_index pr_props tokens of
                  Inl e \<Rightarrow> Inl e
                | Inr pr_resolved \<Rightarrow>
                    compare_components figma_resolved pr_resolved component)))"

text \<open>The counts by severity: the three list comprehensions of \<open>analyze\<close>, and the loop
  of \<open>process_design_review\<close> that counts every issue that is neither \<open>MAJOR\<close> nor
  \<open>MINOR\<close> as a warning.\<close>

record summary =
  major :: nat
  minor :: nat
  warnings :: nat

definition analyze_summary :: "issue list \<Rightarrow> summary" where
  "analyze_summary issues =
     \<lparr>major = length (filter (\<lambda>i. severity i = ''MAJOR'') issues),
      minor = length (filter (\<lambda>i. severity i = ''MINOR'') issues),
      warnings = length (filter (\<lambda>i. severity i = ''WARNING'') issues)\<rparr>"

fun update_summary :: "summary \<Rightarrow> issue list \<Rightarrow> summary" where
  "update_summary s [] = s"
| "update_summary s (i # issues) =
     update_summary
       (if severity i = ''MAJOR'' then s\<lparr>major := major s + 1\<rparr>
        else if severity i = ''MINOR'' then s\<lparr>minor := minor s + 1\<rparr>
        else s\<lparr>warnings := warnings s + 1\<rparr>) issues"

text \<open>The loop of \<open>process_design_review\<close> over the components whose two files were
  loaded, each given by its reference properties, its markup and its name; the summary
  starts with the three counts at zero.\<close>

fun process_components ::
  "summary \<Rightarrow> pydict \<Rightarrow> (pydict \<times> string \<times> string) list \<Rightarrow> error + summary" where
  "process_components s tokens [] = Inr s"
| "process_components s tokens ((figma_props, pr_content, component) # components) =
     (case process_component figma_props tokens pr_content component of
        Inl e \<Rightarrow> Inl e
      | Inr issues \<Rightarrow> process_components (update_summary s issues) tokens components)"

definition process_design_review ::
  "pydict \<Rightarrow> (pydict \<times> string \<times> string) list \<Rightarrow> error + summary" where
  "process_design_review tokens components =
     process_components \<lparr>major = 0, minor = 0, warnings = 0\<rparr> tokens components"

section \<open>Notions used in the statements\<close>

text \<open>The two severities the comparator assigns.\<close>

definition sev_ok :: "issue \<Rightarrow> bool" where
  "sev_ok i = (severity i = ''MAJOR'' \<or> severity i = ''MINOR'')"

text \<open>The issues of category \<open>VALUE_DIFFERENCE\<close> that name a given property.\<close>

definition is_value_difference :: "string \<Rightarrow> issue \<Rightarrow> bool" where
  "is_value_difference key i = (property i = key \<and> category i = ''VALUE_DIFFERENCE'')"

text \<open>What one round of the comparator's loop appends for a reference entry: the result
  of the loop body, which has at most one issue.\<close>

definition entry_issues :: "pydict \<Rightarrow> string \<times> pyval \<Rightarrow> issue list \<Rightarrow> bool" where
  "entry_issues pr_props kv new =
     (compare_entry (fst kv) (snd kv) pr_props = Inr new \<and> length new \<le> 1)"

text \<open>The value of the last entry of the style block whose name is mapped to the given
  canonical name, if there is one.\<close>

definition last_style_value :: "(string \<times> string) list \<Rightarrow> string \<Rightarrow> string option" where
  "last_style_value css_matches name =
     map_of (rev (map (\<lambda>(css_key, css_value). (map_css_property_name css_key, css_value))
       css_matches)) name"

section \<open>Severities of the issues\<close>

lemma compare_missing_sev: "list_all sev_ok (compare_missing key v)"
  by (simp add: compare_missing_def sev_ok_def alt_issue_def missing_issue_def)

lemma compare_present_sev: "compare_present key f p = Inr new \<Longrightarrow> list_all sev_ok new"
  by (auto simp: compare_present_def sev_ok_def token_issue_def value_issue_def radius_issue_def
      split: if_splits sum.splits)

lemma compare_entry_sev: "compare_entry key v pr_props = Inr new \<Longrightarrow> list_all sev_ok new"
  by (auto simp: compare_entry_def Let_def compare_missing_sev compare_present_sev
      split: if_splits pyval.splits)

lemma compare_loop_sev:
  "list_all sev_ok acc \<Longrightarrow> compare_loop acc items pr_props = Inr issues \<Longrightarrow> list_all sev_ok issues"
proof (induction items arbitrary: acc)
  case Nil
  then show ?case by simp
next
  case (Cons a items)
  obtain key v where a: "a = (key, v)" by (cases a)
  from Cons.prems(2) a obtain new where
    n: "compare_entry key v pr_props = Inr new" and
    r: "compare_loop (acc @ new) items pr_props = Inr issues"
    by (auto split: sum.splits)
  from n have "list_all sev_ok new" by (rule compare_entry_sev)
  with Cons.prems(1) have "list_all sev_ok (acc @ new)" by simp
  from Cons.IH [OF this r] show ?case .
qed

lemma compare_components_sev:
  "compare_components f p n = Inr issues \<Longrightarrow> list_all sev_ok issues"
  unfolding compare_components_def by (rule compare_loop_sev [of "[]"]) simp_all

lemma update_summary_warnings:
  "list_all sev_ok issues \<Longrightarrow> warnings (update_summary s issues) = warnings s"
  by (induction issues arbitrary: s) (auto simp: sev_ok_def)

lemma analyze_summary_warnings:
  "list_all sev_ok issues \<Longrightarrow> warnings (analyze_summary issues) = 0"
  by (induction issues) (auto simp: sev_ok_def analyze_summary_def)

lemma analyze_sev: "analyze f t j n = Inr issues \<Longrightarrow> list_all sev_ok issues"
  by (auto simp: analyze_def split: sum.splits dest: compare_components_sev)

lemma process_component_sev: "process_component f t j n = Inr issues \<Longrightarrow> list_all sev_ok issues"
  by (auto simp: process_component_def split: sum.splits dest: compare_components_sev)

lemma process_components_warnings:
  "process_components s tokens comps = Inr s' \<Longrightarrow> warnings s' = warnings s"
proof (induction comps arbitrary: s)
  case Nil
  then show ?case by simp
next
  case (Cons c comps)
  obtain f j n where c: "c = (f, j, n)" by (cases c)
  from Cons.prems c obtain issues where
    i: "process_component f tokens j n = Inr issues" and
    r: "process_components (update_summary s issues) tokens comps = Inr s'"
    by (auto split: sum.splits)
  from Cons.IH [OF r] update_summary_warnings [OF process_component_sev [OF i]]
  show ?case by simp
qed

text \<open>
  Claim C9.  Every issue the comparator returns has severity \<open>MAJOR\<close> or \<open>MINOR\<close>
  and none has severity \<open>WARNING\<close>; hence the count of warnings is 0 in the summary that
  \<open>analyze\<close> assembles, and 0 in the summary of \<open>process_design_review\<close>, whose loop
  would count any other severity as a warning.
\<close>

theorem comparator_severity_major_or_minor:
  "(compare_components figma_props pr_props name = Inr issues \<longrightarrow>
      (\<forall>i \<in> set issues. (severity i = ''MAJOR'' \<or> severity i = ''MINOR'') \<and>
                          severity i \<noteq> ''WARNING'')) \<and>
   (analyze reference tokens jsx name = Inr found \<longrightarrow>
      warnings (analyze_summary found) = 0) \<and>
   (process_design_review toks components = Inr s \<longrightarrow> warnings s = 0)"
proof (intro conjI impI)
  assume "compare_components figma_props pr_props name = Inr issues"
  then have "list_all sev_ok issues" by (rule compare_components_sev)
  then show "\<forall>i \<in> set issues. (severity i = ''MAJOR'' \<or> severity i = ''MINOR'') \<and>
                          severity i \<noteq> ''WARNING''"
    by (auto simp: list_all_iff sev_ok_def)
next
  assume "analyze reference tokens jsx name = Inr found"
  then show "warnings (analyze_summary found) = 0"
    by (intro analyze_summary_warnings analyze_sev)
next
  assume "process_design_review toks components = Inr s"
  then show "warnings s = 0"
    by (auto simp: process_design_review_def dest: process_components_warnings)
qed

theorem comparator_severity_major_or_minor_witness:
  \<open>compare_components
     [(''padding'', PDict [(''value'', PStr ''8px''), (''normalized'', PInt 8)])]
     [(''padding'', PDict [(''value'', PStr ''12px''), (''normalized'', PInt 12)])] ''button'' =
     Inr [value_issue ''padding'' 4 [(''value'', PStr ''8px''), (''normalized'', PInt 8)]
            [(''value'', PStr ''12px''), (''normalized'', PInt 12)]] \<and>
   analyze [(''padding'', PStr ''8px'')] [] ''<Button padding="10px" />'' ''button'' =
     Inr [value_issue ''padding'' 2 [(''value'', PStr ''8px'')] [(''value'', PStr ''10px'')]] \<and>
   process_design_review [(''brand-500'', PStr ''#0055ff'')]
     [([(''padding'', PStr ''8px'')], ''<Button padding="10px" />'', ''button'')] =
     Inr \<lparr>major = 0, minor = 1, warnings = 0\<rparr> \<and>
   severity (value_issue ''padding'' 4 [(''value'', PStr ''8px''), (''normalized'', PInt 8)]
            [(''value'', PStr ''12px''), (''normalized'', PInt 12)]) = ''MAJOR'' \<and>
   warnings (analyze_summary
     [value_issue ''padding'' 2 [(''value'', PStr ''8px'')] [(''value'', PStr ''10px'')]]) = 0 \<and>
   warnings \<lparr>major = 0, minor = 1, warnings = 0\<rparr> = 0\<close>
proof -
  let ?f = "[(''padding'', PDict [(''value'', PStr ''8px''), (''normalized'', PInt 8)])]"
  let ?p = "[(''padding'', PDict [(''value'', PStr ''12px''), (''normalized'', PInt 12)])]"
  let ?i = "value_issue ''padding'' 4 [(''value'', PStr ''8px''), (''normalized'', PInt 8)]
            [(''value'', PStr ''12px''), (''normalized'', PInt 12)]"
  let ?j = "[value_issue ''padding'' 2 [(''value'', PStr ''8px'')] [(''value'', PStr ''10px'')]]"
  let ?m = \<open>''<Button padding="10px" />''\<close>
  let ?c = "[([(''padding'', PStr ''8px'')], ?m, ''button'')]"
  let ?s = "\<lparr>major = 0, minor = 1, warnings = 0\<rparr>"
  have h1: "compare_components ?f ?p ''button'' = Inr [?i]" by code_simp
  have h2: "analyze [(''padding'', PStr ''8px'')] [] ?m ''button'' = Inr ?j" by code_simp
  have h3: "process_design_review [(''brand-500'', PStr ''#0055ff'')] ?c = Inr ?s" by code_simp
  note t = comparator_severity_major_or_minor
    [of ?f ?p "''button''" "[?i]" "[(''padding'', PStr ''8px'')]" "[]" ?m ?j
     "[(''brand-500'', PStr ''#0055ff'')]" ?c ?s]
  from t h1 have "\<forall>i \<in> set [?i]. (severity i = ''MAJOR'' \<or> severity i = ''MINOR'') \<and>
      severity i \<noteq> ''WARNING''" by blast
  then have "severity ?i = ''MAJOR'' \<or> severity ?i = ''MINOR''" by simp
  moreover have "severity ?i \<noteq> ''MINOR''" by (simp add: value_issue_def)
  ultimately have c1: "severity ?i = ''MAJOR''" by blast
  from t h2 have c2: "warnings (analyze_summary ?j) = 0" by blast
  from t h3 have c3: "warnings ?s = 0" by blast
  from h1 h2 h3 c1 c2 c3 show ?thesis by blast
qed

section \<open>Reach of the parser and of the two resolvers\<close>

text \<open>The value parser raises for every argument that is not a string, and returns the
  value alone for every string that none of its five rules takes.\<close>

lemma parse_property_value_not_string:
  "(\<forall>s. v \<noteq> PStr s) \<Longrightarrow> parse_property_value v = Inl TypeError"
  by (cases v) simp_all

lemma parse_str_default:
  assumes "search_css_var s = None" and "\<not> endswith s ''px''" and "\<not> endswith s ''%''"
    and "\<not> isdigit s" and "\<not> (CHR ''-'' \<in> set s \<and> \<not> startswith s ''var('')"
  shows "parse_property_value (PStr s) = Inr (PDict [(''value'', PStr s)])"
  using assms by (simp add: parse_str_def)

text \<open>Both resolvers return dictionaries only, so in both drivers the comparator never
  sees the bare value \<open>True\<close> and never reports an issue of category
  \<open>ACCESSIBILITY_VIOLATION\<close>.\<close>

lemma resolve_raw_dict: "resolve_raw prop tokens = Inr r \<Longrightarrow> \<exists>d. r = PDict d"
  by (auto simp: resolve_raw_def split: pyval.splits option.splits if_splits)

lemma resolve_prop_app_dict: "resolve_prop_app prop tokens = Inr r \<Longrightarrow> \<exists>d. r = PDict d"
  by (auto simp: resolve_prop_app_def split: pyval.splits sum.splits dest: resolve_raw_dict)

lemma resolve_prop_index_dict: "resolve_prop_index prop tokens = Inr r \<Longrightarrow> \<exists>d. r = PDict d"
  by (auto simp: resolve_prop_index_def split: pyval.splits sum.splits dest: resolve_raw_dict)

lemma dict_set_values:
  "(k', v') \<in> set (dict_set d k v) \<Longrightarrow> (k', v') \<in> set d \<or> v' = v"
  by (induction d) (auto split: if_splits)

lemma resolve_loop_dicts:
  assumes "\<And>prop r. body prop tokens = Inr r \<Longrightarrow> \<exists>d. r = PDict d"
  shows "resolve_loop body resolved items tokens = Inr res \<Longrightarrow>
    \<forall>(k, v) \<in> set resolved. \<exists>d. v = PDict d \<Longrightarrow>
    \<forall>(k, v) \<in> set res. \<exists>d. v = PDict d"
proof (induction items arbitrary: resolved)
  case Nil
  then show ?case by simp
next
  case (Cons kp items)
  obtain key pv where kp: "kp = (key, pv)" by (cases kp)
  from Cons.prems(1) kp obtain r where
    b: "body pv tokens = Inr r" and
    l: "resolve_loop body (dict_set resolved key r) items tokens = Inr res"
    by (auto split: sum.splits)
  from assms [OF b] Cons.prems(2)
  have "\<forall>(k, v) \<in> set (dict_set resolved key r). \<exists>d. v = PDict d"
    by (auto dest: dict_set_values)
  from Cons.IH [OF l this] show ?case .
qed

lemma compare_entry_dict_no_alt:
  "compare_entry key (PDict f) pr_props = Inr new \<Longrightarrow>
   \<forall>i \<in> set new. category i \<noteq> ''ACCESSIBILITY_VIOLATION''"
  by (auto simp: compare_entry_def Let_def compare_missing_def compare_present_def
      missing_issue_def token_issue_def value_issue_def radius_issue_def
      split: if_splits pyval.splits sum.splits)

lemma compare_loop_dicts_no_alt:
  "compare_loop acc items pr_props = Inr issues \<Longrightarrow>
   \<forall>(k, v) \<in> set items. \<exists>d. v = PDict d \<Longrightarrow>
   \<forall>i \<in> set acc. category i \<noteq> ''ACCESSIBILITY_VIOLATION'' \<Longrightarrow>
   \<forall>i \<in> set issues. category i \<noteq> ''ACCESSIBILITY_VIOLATION''"
proof (induction items arbitrary: acc)
  case Nil
  then show ?case by simp
next
  case (Cons kv items)
  from Cons.prems(2) obtain key f where kv: "kv = (key, PDict f)" by (cases kv) auto
  from Cons.prems(1) kv obtain new where
    n: "compare_entry key (PDict f) pr_props = Inr new" and
    r: "compare_loop (acc @ new) items pr_props = Inr issues"
    by (auto split: sum.splits)
  from compare_entry_dict_no_alt [OF n] Cons.prems(3)
  have "\<forall>i \<in> set (acc @ new). category i \<noteq> ''ACCESSIBILITY_VIOLATION''" by auto
  moreover from Cons.prems(2) have "\<forall>(k, v) \<in> set items. \<exists>d. v = PDict d" by simp
  ultimately show ?case using Cons.IH [OF r] by blast
qed

lemma drivers_never_report_accessibility:
  "analyze figma_props tokens jsx name = Inr issues \<or>
   process_component figma_props tokens jsx name = Inr issues \<Longrightarrow>
   \<forall>i \<in> set issues. category i \<noteq> ''ACCESSIBILITY_VIOLATION''"
proof (erule disjE)
  assume "analyze figma_props tokens jsx name = Inr issues"
  then obtain fr prr where
    f: "resolve_loop resolve_prop_app [] figma_props tokens = Inr fr" and
    c: "compare_loop [] fr prr = Inr issues"
    by (auto simp: analyze_def resolve_tokens_app_def compare_components_def split: sum.splits)
  from resolve_loop_dicts [of resolve_prop_app, OF resolve_prop_app_dict f]
  have "\<forall>(k, v) \<in> set fr. \<exists>d. v = PDict d" by simp
  from compare_loop_dicts_no_alt [OF c this] show ?thesis by simp
next
  assume "process_component figma_props tokens jsx name = Inr issues"
  then obtain fr prr where
    f: "resolve_loop resolve_prop_index [] figma_props tokens = Inr fr" and
    c: "compare_loop [] fr prr = Inr issues"
    by (auto simp: process_component_def resolve_tokens_index_def compare_components_def
        split: sum.splits)
  from resolve_loop_dicts [of resolve_prop_index, OF resolve_prop_index_dict f]
  have "\<forall>(k, v) \<in> set fr. \<exists>d. v = PDict d" by simp
  from compare_loop_dicts_no_alt [OF c this] show ?thesis by simp
qed

text \<open>The resolver of \<open>index.py\<close> sets \<open>normalized\<close> for a descriptor whose value
  is a single pixel length that \<open>int()\<close> reads; and the two resolvers agree on every
  property map without descriptors.\<close>

lemma dict_get_dict_set_same: "dict_get (dict_set d k v) k = Some v"
  by (induction d) (auto simp: dict_get_def)

lemma resolve_prop_index_normalizes:
  assumes "dict_get d ''value'' = Some (PStr s)" and "single_px s"
    and "py_int (replace_px s) = Some n"
    and "resolve_prop_index (PDict d) tokens = Inr r"
  shows "\<exists>res. r = PDict res \<and> dict_get res ''normalized'' = Some (PInt n)"
  using assms
  by (auto simp: resolve_prop_index_def normalize_px_def dict_get_dict_set_same split: sum.splits)

lemma resolve_prop_raw_agree:
  "(\<forall>d. v \<noteq> PDict d) \<Longrightarrow> resolve_prop_app v tokens = resolve_prop_index v tokens"
  by (cases v) (simp_all add: resolve_prop_app_def resolve_prop_index_def)

lemma resolve_loop_raw_agree:
  "\<forall>(k, v) \<in> set items. \<forall>d. v \<noteq> PDict d \<Longrightarrow>
   resolve_loop resolve_prop_app resolved items tokens =
   resolve_loop resolve_prop_index resolved items tokens"
proof (induction items arbitrary: resolved)
  case Nil
  then show ?case by simp
next
  case (Cons kp items)
  obtain key pv where kp: "kp = (key, pv)" by (cases kp)
  with Cons.prems have "resolve_prop_app pv tokens = resolve_prop_index pv tokens"
    by (intro resolve_prop_raw_agree) simp
  moreover from Cons.prems have "\<forall>(k, v) \<in> set items. \<forall>d. v \<noteq> PDict d" by simp
  ultimately show ?case using Cons.IH kp by (simp split: sum.splits)
qed

lemma resolve_tokens_raw_agree:
  "\<forall>(k, v) \<in> set props. \<forall>d. v \<noteq> PDict d \<Longrightarrow>
   resolve_tokens_app props tokens = resolve_tokens_index props tokens"
  by (simp add: resolve_tokens_app_def resolve_tokens_index_def resolve_loop_raw_agree)

section \<open>Behaviour at single inputs\<close>

text \<open>
  Claim C1.  The reference properties hold \<open>imageAltRequired\<close> with the value \<open>True\<close>
  and the markup yields no property of that name.  Token resolution wraps the value into the
  descriptor \<open>{'value': True}\<close>, so the test \<open>figma_val is True\<close> of the comparator
  fails: both drivers return one issue of severity \<open>MINOR\<close> and category
  \<open>MISSING_PROPERTY\<close>.  The comparator alone, given the unresolved value, returns the
  \<open>MAJOR\<close> issue of category \<open>ACCESSIBILITY_VIOLATION\<close>.
\<close>

theorem alt_rule_missed_after_resolution:
  \<open>process_component [(''imageAltRequired'', PBool True)] [(''brand-500'', PStr ''#0055ff'')]
      ''<img src="avatar.png" />'' ''avatar'' =
     Inr [\<lparr>severity = ''MINOR'', property = ''imageAltRequired'',
           figma = PDict [(''value'', PDict [(''value'', PBool True)])],
           pr = PDict [(''missing'', PBool True)],
           recommendation = ''Add missing property: imageAltRequired'',
           category = ''MISSING_PROPERTY''\<rparr>] \<and>
   analyze [(''imageAltRequired'', PBool True)] [(''brand-500'', PStr ''#0055ff'')]
      ''<img src="avatar.png" />'' ''avatar'' =
     Inr [\<lparr>severity = ''MINOR'', property = ''imageAltRequired'',
           figma = PDict [(''value'', PDict [(''value'', PBool True)])],
           pr = PDict [(''missing'', PBool True)],
           recommendation = ''Add missing property: imageAltRequired'',
           category = ''MISSING_PROPERTY''\<rparr>] \<and>
   compare_components [(''imageAltRequired'', PBool True)] [] ''avatar'' = Inr [alt_issue]\<close>
  by code_simp

text \<open>
  Claim C2.  \<open>resolve_tokens\<close> raises \<open>ValueError\<close> for a value that ends in \<open>px\<close>,
  has no space and whose remainder is no integer: for the raw strings \<open>abcpx\<close> and
  \<open>1.5px\<close> in both files, and for a descriptor with such a value in \<open>index.py\<close>.
  \<open>parse_property_value\<close> catches the same exception and returns the value alone.
\<close>

theorem resolve_tokens_raises_on_unparsable_px:
  "resolve_tokens_app [(''padding'', PStr ''abcpx'')] [] = Inl ValueError \<and>
   resolve_tokens_index [(''padding'', PStr ''abcpx'')] [] = Inl ValueError \<and>
   resolve_tokens_index [(''padding'', PStr ''1.5px'')] [] = Inl ValueError \<and>
   resolve_tokens_index [(''padding'', PDict [(''value'', PStr ''1.5px'')])] [] = Inl ValueError \<and>
   parse_property_value (PStr ''abcpx'') = Inr (PDict [(''value'', PStr ''abcpx'')])"
  by code_simp

text \<open>
  Claim C3.  On the descriptor \<open>{'value': '14px'}\<close> the two versions of
  \<open>resolve_tokens\<close> return different results: \<open>index.py\<close> adds \<open>normalized\<close>,
  \<open>app.py\<close> returns the descriptor as it is.
\<close>

theorem resolve_tokens_app_index_differ:
  "resolve_tokens_app [(''fontSize'', PDict [(''value'', PStr ''14px'')])] [] =
     Inr [(''fontSize'', PDict [(''value'', PStr ''14px'')])] \<and>
   resolve_tokens_index [(''fontSize'', PDict [(''value'', PStr ''14px'')])] [] =
     Inr [(''fontSize'', PDict [(''value'', PStr ''14px''), (''normalized'', PInt 14)])] \<and>
   resolve_tokens_app [(''fontSize'', PDict [(''value'', PStr ''14px'')])] [] \<noteq>
   resolve_tokens_index [(''fontSize'', PDict [(''value'', PStr ''14px'')])] []"
  by code_simp

text \<open>
  Claim C4.  \<open>resolve_tokens\<close> of \<open>app.py\<close>, given the descriptor
  \<open>{'value': '8px'}\<close>, returns it without the field \<open>normalized\<close>.
\<close>

theorem resolve_tokens_app_leaves_px_unnormalized:
  "resolve_tokens_app [(''padding'', PDict [(''value'', PStr ''8px'')])] [] =
     Inr [(''padding'', PDict [(''value'', PStr ''8px'')])] \<and>
   dict_get [(''value'', PStr ''8px'')] ''normalized'' = None"
  by code_simp

text \<open>
  Claim C5.  \<open>parse_property_value\<close> raises \<open>TypeError\<close> for the integer 5 and for
  the boolean \<open>True\<close>: the regular-expression search of its first statement accepts
  strings only and stands before the tests \<open>isinstance(value, str)\<close>.
\<close>

theorem parse_property_value_raises_on_scalar:
  "parse_property_value (PInt 5) = Inl TypeError \<and>
   parse_property_value (PBool True) = Inl TypeError"
  by simp

section \<open>Pixel lengths in the value parser\<close>

lemma code_point_char_of: "n < 256 \<Longrightarrow> code_point (char_of n) = n"
  by (simp add: code_point_def)

lemma is_decimal_digit_char: "(d::nat) < 10 \<Longrightarrow> is_decimal (char_of (48 + d))"
  by (simp add: is_decimal_def Let_def code_point_char_of)

lemma digit_val_digit_char: "(d::nat) < 10 \<Longrightarrow> digit_val (char_of (48 + d)) = int d"
  by (simp add: digit_val_def code_point_char_of)

lemma str_nat_decimal: "list_all is_decimal (str_nat n)"
proof (induction n rule: str_nat.induct)
  case (1 n)
  show ?case
  proof (cases "n < 10")
    case True
    then show ?thesis by (subst str_nat.simps) (simp add: is_decimal_digit_char)
  next
    case False
    with 1 show ?thesis by (subst str_nat.simps) (simp add: is_decimal_digit_char)
  qed
qed

lemma str_nat_nonempty: "str_nat n \<noteq> []"
  by (subst str_nat.simps) simp

lemma is_decimal_not_underscore: "is_decimal c \<Longrightarrow> c \<noteq> CHR ''_''"
  by (auto simp: is_decimal_def code_point_def)

lemma digits_val_snoc:
  "c \<noteq> CHR ''_'' \<Longrightarrow> digits_val acc (ds @ [c]) = 10 * digits_val acc ds + digit_val c"
  by (induction ds arbitrary: acc) simp_all

lemma digits_val_str_nat: "digits_val 0 (str_nat n) = int n"
proof (induction n rule: str_nat.induct)
  case (1 n)
  show ?case
  proof (cases "n < 10")
    case True
    then show ?thesis
      by (subst str_nat.simps) (simp add: digit_val_digit_char is_decimal_not_underscore is_decimal_digit_char)
  next
    case False
    have c: "char_of (48 + n mod 10) \<noteq> CHR ''_''"
      by (rule is_decimal_not_underscore) (simp add: is_decimal_digit_char)
    from False 1 have "digits_val 0 (str_nat (n div 10)) = int (n div 10)" by simp
    moreover have "10 * int (n div 10) + int (n mod 10) = int n"
      by presburger
    ultimately show ?thesis using False c
      by (subst str_nat.simps) (simp add: digits_val_snoc digit_val_digit_char)
  qed
qed

lemma digits_ok_decimal: "ds \<noteq> [] \<Longrightarrow> list_all is_decimal ds \<Longrightarrow> digits_ok ds"
  by (induction ds rule: digits_ok.induct) (auto dest: is_decimal_not_underscore)

lemma py_int_decimal:
  assumes "ds \<noteq> []" and "list_all is_decimal ds"
  shows "py_int ds = Some (digits_val 0 ds)"
proof -
  from assms obtain c cs where ds: "ds = c # cs" and c: "is_decimal c"
    by (cases ds) auto
  from c have ns: "\<not> int_space c" and sg: "c \<noteq> CHR ''+''" "c \<noteq> CHR ''-''"
    by (auto simp: is_decimal_def int_space_def code_point_def Let_def)
  from assms(2) have tw: "takeWhile (\<lambda>c. is_decimal c \<or> c = CHR ''_'') ds = ds"
    and dw: "dropWhile (\<lambda>c. is_decimal c \<or> c = CHR ''_'') ds = []"
    by (auto simp: list_all_iff)
  from ns ds have d1: "dropWhile int_space ds = ds" by simp
  show ?thesis
    unfolding py_int_def d1 Let_def
    using sg tw dw digits_ok_decimal [OF assms] by (simp add: ds)
qed

lemma search_css_var_no_v: "CHR ''v'' \<notin> set s \<Longrightarrow> search_css_var s = None"
  by (induction s) (auto simp: match_css_var_def startswith_def)

lemma replace_px_no_p: "CHR ''p'' \<notin> set ds \<Longrightarrow> replace_px (ds @ ''px'') = ds"
proof (induction ds)
  case Nil
  then show ?case by simp
next
  case (Cons c ds)
  then obtain d r where "ds @ ''px'' = d # r" by (cases "ds @ ''px''") auto
  with Cons show ?case by auto
qed

lemma endswith_append: "endswith (ds @ p) p"
  by (simp add: endswith_def)

lemma decimal_chars:
  assumes "list_all is_decimal ds"
  shows "CHR ''v'' \<notin> set ds" "CHR ''p'' \<notin> set ds" "CHR '' '' \<notin> set ds" "CHR ''x'' \<notin> set ds"
  using assms by (auto simp: list_all_iff is_decimal_def code_point_def)

lemma parse_str_digits_px:
  assumes "ds \<noteq> []" and "list_all is_decimal ds"
  shows "parse_str (ds @ ''px'') =
    Inr (PDict [(''value'', PStr (ds @ ''px'')), (''normalized'', PInt (digits_val 0 ds))])"
proof -
  from decimal_chars [OF assms(2)] have "search_css_var (ds @ ''px'') = None"
    by (intro search_css_var_no_v) simp
  moreover have "endswith (ds @ ''px'') ''px''" by (rule endswith_append)
  moreover from decimal_chars [OF assms(2)] have "CHR '' '' \<notin> set (ds @ ''px'')" by simp
  moreover from decimal_chars [OF assms(2)] have "replace_px (ds @ ''px'') = ds"
    by (intro replace_px_no_p)
  ultimately show ?thesis
    by (simp add: parse_str_def py_int_decimal [OF assms])
qed

lemma parse_str_compound:
  assumes "endswith s ''px''" and "CHR '' '' \<in> set s"
  shows "parse_str s = Inr (PDict [(''value'', PStr s)]) \<or>
         (\<exists>t. parse_str s = Inr (PDict [(''token'', PStr t), (''value'', PStr t)]))"
  using assms by (auto simp: parse_str_def split: option.splits)

text \<open>
  Claim C6.  For every natural number \<open>n\<close>, written in decimal digits as \<open>str(n)\<close>
  writes it, \<open>parse_property_value\<close> of the digits followed by \<open>px\<close> returns a
  descriptor whose \<open>normalized\<close> is \<open>n\<close>; and for every string that ends in \<open>px\<close>
  and contains a space, it returns a descriptor without the field \<open>normalized\<close>.
\<close>

theorem parse_pixel_length_normalized:
  "parse_property_value (PStr (str_nat n @ ''px'')) =
     Inr (PDict [(''value'', PStr (str_nat n @ ''px'')), (''normalized'', PInt (int n))]) \<and>
   (endswith s ''px'' \<and> CHR '' '' \<in> set s \<longrightarrow>
     (\<exists>d. parse_property_value (PStr s) = Inr (PDict d) \<and> \<not> dict_has d ''normalized''))"
proof (intro conjI impI)
  show "parse_property_value (PStr (str_nat n @ ''px'')) =
     Inr (PDict [(''value'', PStr (str_nat n @ ''px'')), (''normalized'', PInt (int n))])"
    using parse_str_digits_px [OF str_nat_nonempty str_nat_decimal, of n]
    by (simp add: digits_val_str_nat)
next
  assume "endswith s ''px'' \<and> CHR '' '' \<in> set s"
  then have "parse_str s = Inr (PDict [(''value'', PStr s)]) \<or>
         (\<exists>t. parse_str s = Inr (PDict [(''token'', PStr t), (''value'', PStr t)]))"
    by (intro parse_str_compound) simp_all
  then show "\<exists>d. parse_property_value (PStr s) = Inr (PDict d) \<and> \<not> dict_has d ''normalized''"
    by (auto simp: dict_has_def dict_get_def)
qed

theorem parse_pixel_length_normalized_witness:
  "endswith ''8px 12px'' ''px'' \<and> CHR '' '' \<in> set ''8px 12px'' \<and>
   parse_property_value (PStr ''128px'') =
     Inr (PDict [(''value'', PStr ''128px''), (''normalized'', PInt 128)]) \<and>
   (\<exists>d. parse_property_value (PStr ''8px 12px'') = Inr (PDict d) \<and> \<not> dict_has d ''normalized'')"
proof -
  have h: "endswith ''8px 12px'' ''px'' \<and> CHR '' '' \<in> set ''8px 12px''" by code_simp
  have s: "str_nat 128 = ''128''" by code_simp
  note t = parse_pixel_length_normalized [of 128 "''8px 12px''"]
  from t h have c2: "\<exists>d. parse_property_value (PStr ''8px 12px'') = Inr (PDict d) \<and>
      \<not> dict_has d ''normalized''" by blast
  from t have "parse_property_value (PStr (str_nat 128 @ ''px'')) =
     Inr (PDict [(''value'', PStr (str_nat 128 @ ''px'')), (''normalized'', PInt (int 128))])"
    by blast
  then have c1: "parse_property_value (PStr ''128px'') =
     Inr (PDict [(''value'', PStr ''128px''), (''normalized'', PInt 128)])"
    unfolding s by simp
  from h c1 c2 show ?thesis by blast
qed

section \<open>The value comparison of the comparator\<close>

lemma num_of_not_none: "num_of v = Some a \<Longrightarrow> v \<noteq> PNone"
  by (cases v) auto

lemma get_or_none_nonempty: "get_or_none d k \<noteq> PNone \<Longrightarrow> d \<noteq> []"
  by (auto simp: get_or_none_def dict_get_def)

lemma compare_present_value:
  assumes "num_of (get_or_none f ''normalized'') = Some a"
    and "num_of (get_or_none p ''normalized'') = Some b"
    and "\<not> (truthy (get_or_none f ''token'') \<and> truthy (get_or_none p ''token''))"
  shows "compare_present key f p = Inr (if a = b then [] else [value_issue key \<bar>a - b\<bar> f p])"
proof -
  from assms(1,2) have "get_or_none f ''normalized'' \<noteq> PNone" "get_or_none p ''normalized'' \<noteq> PNone"
    by (auto dest: num_of_not_none)
  moreover from assms(1,2)
  have "abs_diff (get_or_none f ''normalized'') (get_or_none p ''normalized'') = Inr \<bar>a - b\<bar>"
    by (simp add: abs_diff_def)
  ultimately show ?thesis using assms(3)
    by (auto simp: compare_present_def)
qed

lemma compare_entry_value:
  assumes "dict_get pr_props key = Some (PDict p)"
    and "num_of (get_or_none f ''normalized'') = Some a"
    and "num_of (get_or_none p ''normalized'') = Some b"
    and "\<not> (truthy (get_or_none f ''token'') \<and> truthy (get_or_none p ''token''))"
  shows "compare_entry key (PDict f) pr_props =
    Inr (if a = b then [] else [value_issue key \<bar>a - b\<bar> f p])"
proof -
  from assms(3) have "p \<noteq> []" by (auto dest: num_of_not_none get_or_none_nonempty)
  with assms(1) have "get_or_none pr_props key = PDict p" "truthy (get_or_none pr_props key)"
    by (simp_all add: get_or_none_def)
  then show ?thesis
    by (simp add: compare_entry_def compare_present_value [OF assms(2-4)])
qed

lemma compare_present_other_key:
  "compare_present k f p = Inr new \<Longrightarrow> k \<noteq> key \<Longrightarrow> filter (is_value_difference key) new = []"
  by (auto simp: compare_present_def is_value_difference_def token_issue_def value_issue_def
      radius_issue_def split: if_splits sum.splits)

lemma compare_entry_other_key:
  "compare_entry k v pr_props = Inr new \<Longrightarrow> k \<noteq> key \<Longrightarrow>
   filter (is_value_difference key) new = []"
  by (auto simp: compare_entry_def Let_def compare_missing_def is_value_difference_def
      alt_issue_def missing_issue_def
      split: if_splits pyval.splits dest: compare_present_other_key)

lemma compare_loop_other_keys:
  "compare_loop acc items pr_props = Inr issues \<Longrightarrow> key \<notin> fst ` set items \<Longrightarrow>
   filter (is_value_difference key) issues = filter (is_value_difference key) acc"
proof (induction items arbitrary: acc)
  case Nil
  then show ?case by simp
next
  case (Cons kv items)
  obtain k v where kv: "kv = (k, v)" by (cases kv)
  from Cons.prems(1) kv obtain new where
    n: "compare_entry k v pr_props = Inr new" and
    r: "compare_loop (acc @ new) items pr_props = Inr issues"
    by (auto split: sum.splits)
  from Cons.prems(2) kv have "k \<noteq> key" "key \<notin> fst ` set items" by auto
  with Cons.IH [OF r] compare_entry_other_key [OF n] show ?case by simp
qed

lemma compare_loop_key:
  "compare_loop acc items pr_props = Inr issues \<Longrightarrow> distinct (map fst items) \<Longrightarrow>
   (key, v) \<in> set items \<Longrightarrow> compare_entry key v pr_props = Inr new \<Longrightarrow>
   filter (is_value_difference key) issues =
     filter (is_value_difference key) acc @ filter (is_value_difference key) new"
proof (induction items arbitrary: acc)
  case Nil
  then show ?case by simp
next
  case (Cons kv items)
  obtain k w where kv: "kv = (k, w)" by (cases kv)
  from Cons.prems(1) kv obtain new' where
    n: "compare_entry k w pr_props = Inr new'" and
    r: "compare_loop (acc @ new') items pr_props = Inr issues"
    by (auto split: sum.splits)
  show ?case
  proof (cases "k = key")
    case True
    with Cons.prems(2,3) kv have "w = v" and nk: "key \<notin> fst ` set items"
      by (auto simp: image_iff)
    with n True Cons.prems(4) have "new' = new" by simp
    with compare_loop_other_keys [OF r nk] show ?thesis by simp
  next
    case False
    with Cons.prems(2,3) kv have "distinct (map fst items)" "(key, v) \<in> set items" by auto
    from Cons.IH [OF r this Cons.prems(4)] compare_entry_other_key [OF n False]
    show ?thesis by simp
  qed
qed

text \<open>
  Claim C7.  Let a key of the reference map, whose keys are distinct, be present on both
  sides with two descriptors that both carry a number as \<open>normalized\<close> (an integer, or a
  boolean, which Python counts as 0 or 1), and let not both carry a token.  Then the round
  of the comparator for this key returns no issue when the two numbers are equal and else
  exactly one issue of category \<open>VALUE_DIFFERENCE\<close> for the key, of severity \<open>MAJOR\<close>
  when the absolute difference is greater than 2 and \<open>MINOR\<close> otherwise; and these are
  the issues of that category and property in the list that \<open>compare_components\<close> returns.
\<close>

theorem value_difference_rule:
  assumes "distinct (map fst figma_props)"
    and "(key, PDict f) \<in> set figma_props"
    and "dict_get pr_props key = Some (PDict p)"
    and "num_of (get_or_none f ''normalized'') = Some a"
    and "num_of (get_or_none p ''normalized'') = Some b"
    and "\<not> (truthy (get_or_none f ''token'') \<and> truthy (get_or_none p ''token''))"
  shows "compare_entry key (PDict f) pr_props =
           Inr (if a = b then [] else [value_issue key \<bar>a - b\<bar> f p]) \<and>
         (compare_components figma_props pr_props name = Inr issues \<longrightarrow>
            filter (is_value_difference key) issues =
              (if a = b then [] else [value_issue key \<bar>a - b\<bar> f p])) \<and>
         severity (value_issue key \<bar>a - b\<bar> f p) = (if \<bar>a - b\<bar> > 2 then ''MAJOR'' else ''MINOR'') \<and>
         property (value_issue key \<bar>a - b\<bar> f p) = key \<and>
         category (value_issue key \<bar>a - b\<bar> f p) = ''VALUE_DIFFERENCE''"
proof (intro conjI impI)
  show e: "compare_entry key (PDict f) pr_props =
           Inr (if a = b then [] else [value_issue key \<bar>a - b\<bar> f p])"
    by (rule compare_entry_value [OF assms(3-6)])
  assume "compare_components figma_props pr_props name = Inr issues"
  then have "compare_loop [] figma_props pr_props = Inr issues"
    by (simp add: compare_components_def)
  from compare_loop_key [OF this assms(1,2) e]
  show "filter (is_value_difference key) issues =
              (if a = b then [] else [value_issue key \<bar>a - b\<bar> f p])"
    by (simp add: is_value_difference_def value_issue_def)
qed (simp_all add: value_issue_def)

theorem value_difference_rule_witness:
  "compare_entry ''padding'' (PDict [(''value'', PStr ''8px''), (''normalized'', PInt 8)])
     [(''padding'', PDict [(''value'', PStr ''10px''), (''normalized'', PInt 10)])] =
     Inr [value_issue ''padding'' 2 [(''value'', PStr ''8px''), (''normalized'', PInt 8)]
            [(''value'', PStr ''10px''), (''normalized'', PInt 10)]] \<and>
   compare_components
     [(''padding'', PDict [(''value'', PStr ''8px''), (''normalized'', PInt 8)])]
     [(''padding'', PDict [(''value'', PStr ''10px''), (''normalized'', PInt 10)])] ''button'' =
     Inr [value_issue ''padding'' 2 [(''value'', PStr ''8px''), (''normalized'', PInt 8)]
            [(''value'', PStr ''10px''), (''normalized'', PInt 10)]] \<and>
   filter (is_value_difference ''padding'')
     [value_issue ''padding'' 2 [(''value'', PStr ''8px''), (''normalized'', PInt 8)]
            [(''value'', PStr ''10px''), (''normalized'', PInt 10)]] =
     [value_issue ''padding'' 2 [(''value'', PStr ''8px''), (''normalized'', PInt 8)]
            [(''value'', PStr ''10px''), (''normalized'', PInt 10)]] \<and>
   severity (value_issue ''padding'' 2 [(''value'', PStr ''8px''), (''normalized'', PInt 8)]
            [(''value'', PStr ''10px''), (''normalized'', PInt 10)]) = ''MINOR''"
proof -
  let ?f = "[(''value'', PStr ''8px''), (''normalized'', PInt 8)]"
  let ?p = "[(''value'', PStr ''10px''), (''normalized'', PInt 10)]"
  let ?F = "[(''padding'', PDict ?f)]"
  let ?P = "[(''padding'', PDict ?p)]"
  let ?i = "value_issue ''padding'' 2 ?f ?p"
  have h1: "distinct (map fst ?F)" by simp
  have h2: "(''padding'', PDict ?f) \<in> set ?F" by simp
  have h3: "dict_get ?P ''padding'' = Some (PDict ?p)" by (simp add: dict_get_def)
  have h4: "num_of (get_or_none ?f ''normalized'') = Some 8"
    by (simp add: get_or_none_def dict_get_def)
  have h5: "num_of (get_or_none ?p ''normalized'') = Some 10"
    by (simp add: get_or_none_def dict_get_def)
  have h6: "\<not> (truthy (get_or_none ?f ''token'') \<and> truthy (get_or_none ?p ''token''))"
    by (simp add: get_or_none_def dict_get_def)
  have h7: "compare_components ?F ?P ''button'' = Inr [?i]" by code_simp
  note t = value_difference_rule [OF h1 h2 h3 h4 h5 h6, of "''button''" "[?i]"]
  from t have c1: "compare_entry ''padding'' (PDict ?f) ?P = Inr [?i]" by simp
  from t h7 have c2: "filter (is_value_difference ''padding'') [?i] = [?i]" by simp
  from t have c3: "severity ?i = ''MINOR''" by simp
  from c1 h7 c2 c3 show ?thesis by blast
qed

section \<open>Order and determinism of the comparator\<close>

lemma compare_entry_lookup:
  "dict_get pr1 key = dict_get pr2 key \<Longrightarrow>
   compare_entry key v pr1 = compare_entry key v pr2"
  by (simp add: compare_entry_def get_or_none_def)

lemma compare_loop_lookup:
  "\<forall>k. dict_get pr1 k = dict_get pr2 k \<Longrightarrow>
   compare_loop acc items pr1 = compare_loop acc items pr2"
proof (induction items arbitrary: acc)
  case Nil
  then show ?case by simp
next
  case (Cons kv items)
  obtain k v where kv: "kv = (k, v)" by (cases kv)
  from Cons.prems have "compare_entry k v pr1 = compare_entry k v pr2"
    by (intro compare_entry_lookup) simp
  with Cons.IH [OF Cons.prems] kv show ?case by (simp split: sum.splits)
qed

lemma compare_present_at_most_one: "compare_present key f p = Inr new \<Longrightarrow> length new \<le> 1"
  by (auto simp: compare_present_def split: if_splits sum.splits)

lemma compare_entry_at_most_one: "compare_entry key v pr_props = Inr new \<Longrightarrow> length new \<le> 1"
  by (auto simp: compare_entry_def Let_def compare_missing_def
      split: if_splits pyval.splits dest: compare_present_at_most_one)

lemma compare_loop_concat:
  "compare_loop acc items pr_props = Inr issues \<Longrightarrow>
   \<exists>per. list_all2 (entry_issues pr_props) items per \<and> issues = acc @ concat per"
proof (induction items arbitrary: acc)
  case Nil
  then show ?case by simp
next
  case (Cons kv items)
  obtain k v where kv: "kv = (k, v)" by (cases kv)
  from Cons.prems kv obtain new where
    n: "compare_entry k v pr_props = Inr new" and
    r: "compare_loop (acc @ new) items pr_props = Inr issues"
    by (auto split: sum.splits)
  from Cons.IH [OF r] obtain per where
    p: "list_all2 (entry_issues pr_props) items per" and i: "issues = (acc @ new) @ concat per"
    by blast
  from n kv compare_entry_at_most_one [OF n] have "entry_issues pr_props kv new"
    by (simp add: entry_issues_def)
  with p have "list_all2 (entry_issues pr_props) (kv # items) (new # per)" by simp
  moreover from i have "issues = acc @ concat (new # per)" by simp
  ultimately show ?case by blast
qed

text \<open>
  Claim C10.  The result of \<open>compare_components\<close> is determined by the reference map and
  by what the implementation map holds under each key: two runs on the same reference map
  and on implementation maps with the same entries return the same result, whatever the
  component name and the order of the implementation map.  A returned issue list is the
  concatenation, in the order of the reference map, of what each reference entry
  contributes, which is at most one issue.
\<close>

theorem comparator_deterministic_in_reference_order:
  "((\<forall>k. dict_get pr1 k = dict_get pr2 k) \<longrightarrow>
      compare_components figma_props pr1 name1 = compare_components figma_props pr2 name2) \<and>
   (compare_components figma_props pr_props name = Inr issues \<longrightarrow>
      (\<exists>per. list_all2 (entry_issues pr_props) figma_props per \<and> issues = concat per))"
proof (intro conjI impI)
  assume "\<forall>k. dict_get pr1 k = dict_get pr2 k"
  then show "compare_components figma_props pr1 name1 = compare_components figma_props pr2 name2"
    by (simp add: compare_components_def compare_loop_lookup)
next
  assume "compare_components figma_props pr_props name = Inr issues"
  then have "compare_loop [] figma_props pr_props = Inr issues"
    by (simp add: compare_components_def)
  from compare_loop_concat [OF this]
  show "\<exists>per. list_all2 (entry_issues pr_props) figma_props per \<and> issues = concat per"
    by simp
qed

theorem comparator_deterministic_in_reference_order_witness:
  "compare_components
     [(''padding'', PDict [(''value'', PStr ''8px''), (''normalized'', PInt 8)]),
      (''hoverColor'', PDict [(''value'', PStr ''red'')]),
      (''fontSize'', PDict [(''value'', PStr ''14px''), (''normalized'', PInt 14)])]
     [(''padding'', PDict [(''value'', PStr ''10px''), (''normalized'', PInt 10)]),
      (''fontSize'', PDict [(''value'', PStr ''20px''), (''normalized'', PInt 20)])] ''button'' =
   compare_components
     [(''padding'', PDict [(''value'', PStr ''8px''), (''normalized'', PInt 8)]),
      (''hoverColor'', PDict [(''value'', PStr ''red'')]),
      (''fontSize'', PDict [(''value'', PStr ''14px''), (''normalized'', PInt 14)])]
     [(''fontSize'', PDict [(''value'', PStr ''20px''), (''normalized'', PInt 20)]),
      (''padding'', PDict [(''value'', PStr ''10px''), (''normalized'', PInt 10)])] ''card'' \<and>
   (\<exists>per. list_all2
       (entry_issues
         [(''padding'', PDict [(''value'', PStr ''10px''), (''normalized'', PInt 10)]),
          (''fontSize'', PDict [(''value'', PStr ''20px''), (''normalized'', PInt 20)])])
       [(''padding'', PDict [(''value'', PStr ''8px''), (''normalized'', PInt 8)]),
        (''hoverColor'', PDict [(''value'', PStr ''red'')]),
        (''fontSize'', PDict [(''value'', PStr ''14px''), (''normalized'', PInt 14)])] per \<and>
     [value_issue ''padding'' 2 [(''value'', PStr ''8px''), (''normalized'', PInt 8)]
        [(''value'', PStr ''10px''), (''normalized'', PInt 10)],
      value_issue ''fontSize'' 6 [(''value'', PStr ''14px''), (''normalized'', PInt 14)]
        [(''value'', PStr ''20px''), (''normalized'', PInt 20)]] = concat per)"
proof -
  let ?F = "[(''padding'', PDict [(''value'', PStr ''8px''), (''normalized'', PInt 8)]),
      (''hoverColor'', PDict [(''value'', PStr ''red'')]),
      (''fontSize'', PDict [(''value'', PStr ''14px''), (''normalized'', PInt 14)])]"
  let ?P1 = "[(''padding'', PDict [(''value'', PStr ''10px''), (''normalized'', PInt 10)]),
      (''fontSize'', PDict [(''value'', PStr ''20px''), (''normalized'', PInt 20)])]"
  let ?P2 = "[(''fontSize'', PDict [(''value'', PStr ''20px''), (''normalized'', PInt 20)]),
      (''padding'', PDict [(''value'', PStr ''10px''), (''normalized'', PInt 10)])]"
  let ?I = "[value_issue ''padding'' 2 [(''value'', PStr ''8px''), (''normalized'', PInt 8)]
        [(''value'', PStr ''10px''), (''normalized'', PInt 10)],
      value_issue ''fontSize'' 6 [(''value'', PStr ''14px''), (''normalized'', PInt 14)]
        [(''value'', PStr ''20px''), (''normalized'', PInt 20)]]"
  have h1: "\<forall>k. dict_get ?P1 k = dict_get ?P2 k" by (simp add: dict_get_def)
  have h2: "compare_components ?F ?P1 ''button'' = Inr ?I" by code_simp
  note t = comparator_deterministic_in_reference_order
    [of ?P1 ?P2 ?F "''button''" "''card''" ?P1 "''button''" ?I]
  from t h1 have c1: "compare_components ?F ?P1 ''button'' = compare_components ?F ?P2 ''card''"
    by blast
  from t h2 have c2: "\<exists>per. list_all2 (entry_issues ?P1) ?F per \<and> ?I = concat per"
    by blast
  from c1 c2 show ?thesis by blast
qed

section \<open>Style entries and attributes\<close>

lemma dict_get_dict_set:
  "dict_get (dict_set d k v) k' = (if k' = k then Some v else dict_get d k')"
  by (induction d) (auto simp: dict_get_def)

lemma last_style_value_Cons:
  "last_style_value ((css_key, css_value) # ms) name =
     (case last_style_value ms name of
        Some v \<Rightarrow> Some v
      | None \<Rightarrow> if map_css_property_name css_key = name then Some css_value else None)"
  by (auto simp: last_style_value_def map_add_def split: option.splits)

lemma last_style_value_Nil: "last_style_value [] name = None"
  by (simp add: last_style_value_def)

lemma set_styles_lookup:
  "set_styles props ms = Inr props' \<Longrightarrow>
   (case last_style_value ms name of
      None \<Rightarrow> dict_get props' name = dict_get props name
    | Some css_value \<Rightarrow>
        (\<exists>d. parse_property_value (PStr (clean_value css_value)) = Inr d \<and>
             dict_get props' name = Some d))"
proof (induction ms arbitrary: props)
  case Nil
  then show ?case by (simp add: last_style_value_Nil)
next
  case (Cons m ms)
  obtain css_key css_value where m: "m = (css_key, css_value)" by (cases m)
  from Cons.prems m obtain d where
    d: "parse_property_value (PStr (clean_value css_value)) = Inr d" and
    r: "set_styles (dict_set props (map_css_property_name css_key) d) ms = Inr props'"
    by (auto split: sum.splits)
  from Cons.IH [OF r] d show ?case
    unfolding m last_style_value_Cons
    by (auto simp: dict_get_dict_set split: option.splits)
qed

lemma last_style_value_entry:
  "(css_key, v) \<in> set ms \<Longrightarrow> \<exists>css_value. last_style_value ms (map_css_property_name css_key) = Some css_value"
proof -
  assume "(css_key, v) \<in> set ms"
  then have "(map_css_property_name css_key, v) \<in>
    set (rev (map (\<lambda>(css_key, css_value). (map_css_property_name css_key, css_value)) ms))"
    by force
  then have "map_css_property_name css_key \<in>
    fst ` set (rev (map (\<lambda>(css_key, css_value). (map_css_property_name css_key, css_value)) ms))"
    by (rule image_eqI [rotated]) simp
  then show ?thesis
    unfolding last_style_value_def by (metis map_of_eq_None_iff not_Some_eq)
qed

text \<open>
  Whenever \<open>parse_jsx_props\<close> returns a property map and the style block of the markup
  has an entry, the map holds under the entry's canonical name the parsed, cleaned value of
  the last style entry with that canonical name, whether or not an attribute of the markup
  has the same name: the style entries are stored after the attributes.
\<close>

lemma style_entry_stored_last:
  assumes "parse_jsx_props jsx_content = Inr props"
    and "search_style jsx_content = Some style_content"
    and "(css_key, v) \<in> set (findall_css style_content)"
  shows "\<exists>css_value d.
           last_style_value (findall_css style_content) (map_css_property_name css_key) =
             Some css_value \<and>
           parse_property_value (PStr (clean_value css_value)) = Inr d \<and>
           dict_get props (map_css_property_name css_key) = Some d"
proof -
  from assms(1,2) obtain attrs where
    "set_styles attrs (findall_css style_content) = Inr props"
    by (auto simp: parse_jsx_props_def split: sum.splits)
  from set_styles_lookup [OF this, of "map_css_property_name css_key"]
    last_style_value_entry [OF assms(3)]
  show ?thesis by auto
qed

text \<open>An instance in which the attribute \<open>textColor\<close> and the style entry \<open>color\<close>
  meet under the canonical name \<open>textColor\<close>: the map holds the value of the style entry.\<close>

lemma style_entry_stored_last_mapped_name:
  \<open>findall_props ''<Text textColor="red" style={{color: "blue"}} />'' = [(''textColor'', ''red'')] \<and>
   map_css_property_name ''color'' = ''textColor'' \<and>
   parse_jsx_props ''<Text textColor="red" style={{color: "blue"}} />'' =
     Inr [(''textColor'', PDict [(''value'', PStr ''blue'')])] \<and>
   (\<exists>css_value d.
      last_style_value (findall_css ''color: "blue"'') (map_css_property_name ''color'') =
        Some css_value \<and>
      parse_property_value (PStr (clean_value css_value)) = Inr d \<and>
      dict_get [(''textColor'', PDict [(''value'', PStr ''blue'')])]
        (map_css_property_name ''color'') = Some d)\<close>
proof -
  let ?m = \<open>''<Text textColor="red" style={{color: "blue"}} />''\<close>
  let ?s = \<open>''color: "blue"''\<close>
  let ?v = \<open>[CHR 0x22] @ ''blue'' @ [CHR 0x22]\<close>
  let ?p = "[(''textColor'', PDict [(''value'', PStr ''blue'')])]"
  have h1: "parse_jsx_props ?m = Inr ?p" by code_simp
  have h2: "search_style ?m = Some ?s" by code_simp
  have h3: "(''color'', ?v) \<in> set (findall_css ?s)" by code_simp
  have a: "findall_props ?m = [(''textColor'', ''red'')]" by code_simp
  have n: "map_css_property_name ''color'' = ''textColor''" by code_simp
  from style_entry_stored_last [OF h1 h2 h3] h1 a n show ?thesis by blast
qed

text \<open>
  Claim C8.  In the markup \<open><a padding="1px" style={{padding: S}} />\<close>, where \<open>S\<close> is the
  one character superscript two (code point 178), the attribute \<open>padding\<close> and the style
  entry \<open>padding\<close> have the same canonical name.  \<open>str.isdigit\<close> holds for the value of
  the style entry and \<open>int()\<close> does not read it; the digit rule of
  \<open>parse_property_value\<close> converts outside any \<open>try\<close>, so \<open>parse_jsx_props\<close> raises
  \<open>ValueError\<close> and returns no property map.  The same value followed by \<open>px\<close> is
  absorbed by the pixel rule, which catches the exception.
\<close>

theorem style_overwrite_lost_on_superscript_digit:
  \<open>findall_props (''<a padding="1px" style={{padding: '' @ [CHR 0xB2] @ ''}} />'') =
     [(''padding'', ''1px'')] \<and>
   search_style (''<a padding="1px" style={{padding: '' @ [CHR 0xB2] @ ''}} />'') =
     Some (''padding: '' @ [CHR 0xB2]) \<and>
   findall_css (''padding: '' @ [CHR 0xB2]) = [(''padding'', [CHR 0xB2])] \<and>
   map_css_property_name ''padding'' = ''padding'' \<and>
   parse_property_value (PStr (clean_value [CHR 0xB2])) = Inl ValueError \<and>
   parse_jsx_props (''<a padding="1px" style={{padding: '' @ [CHR 0xB2] @ ''}} />'') =
     Inl ValueError \<and>
   parse_property_value (PStr ([CHR 0xB2] @ ''px'')) =
     Inr (PDict [(''value'', PStr ([CHR 0xB2] @ ''px''))])\<close>
  by code_simp

end
